theory Spec2Isabelle
  imports Main "HOL-Library.Word"
begin

section \<open>Strings\<close>

text \<open>
  Python's \<open>str\<close> is modelled by \<open>string\<close>. The character predicates and the case
  mapping of \<open>str\<close> are modelled on the ASCII range, by the code ranges and the table
  below; a character outside of them is neither whitespace nor alphanumeric and is
  left alone by \<open>lower\<close>.
\<close>

definition ascii_uppercase :: string where
  "ascii_uppercase = ''ABCDEFGHIJKLMNOPQRSTUVWXYZ''"

definition ascii_lowercase :: string where
  "ascii_lowercase = ''abcdefghijklmnopqrstuvwxyz''"

text \<open>
  \<open>str.isspace\<close>, which is also what \<open>\s\<close> matches in a \<open>str\<close> pattern: tab, line
  feed, vertical tab, form feed, carriage return (codes 9 to 13), the four separators
  \<open>0x1C\<close> to \<open>0x1F\<close>, and the space (codes 28 to 32).
\<close>

definition isspace :: "char \<Rightarrow> bool" where
  "isspace c = (let n = (of_char c :: nat) in (9 \<le> n \<and> n \<le> 13) \<or> (28 \<le> n \<and> n \<le> 32))"

text \<open>\<open>str.isalnum\<close> on one character: a digit, an uppercase or a lowercase letter.\<close>

definition isalnum :: "char \<Rightarrow> bool" where
  "isalnum c = (let n = (of_char c :: nat) in
                  (48 \<le> n \<and> n \<le> 57) \<or> (65 \<le> n \<and> n \<le> 90) \<or> (97 \<le> n \<and> n \<le> 122))"

definition lower_char :: "char \<Rightarrow> char" where
  "lower_char c = (case map_of (zip ascii_uppercase ascii_lowercase) c of
                     Some l \<Rightarrow> l
                   | None \<Rightarrow> c)"

definition lower :: "string \<Rightarrow> string" where
  "lower s = map lower_char s"

definition rstrip :: "string \<Rightarrow> string" where
  "rstrip s = rev (dropWhile isspace (rev s))"

definition lstrip :: "string \<Rightarrow> string" where
  "lstrip s = dropWhile isspace s"

text \<open>
  \<open>re.sub(r"\s+", "-", s)\<close>: the scan goes from left to right; where the pattern matches,
  the match is greedy, so it takes the whole run of whitespace, one hyphen is emitted and
  the scan goes on behind the match; elsewhere the character is copied.
\<close>

function re_sub_ws :: "string \<Rightarrow> string" where
  "re_sub_ws [] = []"
| "re_sub_ws (c # cs) =
     (if isspace c then CHR ''-'' # re_sub_ws (dropWhile isspace cs) else c # re_sub_ws cs)"
  by pat_completeness auto
termination
  by (relation "measure length") (auto simp: less_Suc_eq_le length_dropWhile_le)

text \<open>\<open>s in t\<close> for strings: \<open>s\<close> occurs in \<open>t\<close> as a contiguous substring.\<close>

fun startswith :: "string \<Rightarrow> string \<Rightarrow> bool" where
  "startswith t [] = True"
| "startswith [] (c # cs) = False"
| "startswith (d # ds) (c # cs) = (d = c \<and> startswith ds cs)"

fun py_in :: "string \<Rightarrow> string \<Rightarrow> bool" where
  "py_in s [] = (s = [])"
| "py_in s (c # cs) = (startswith (c # cs) s \<or> py_in s cs)"

text \<open>
  \<open>s.partition(c)\<close>: the text before the first \<open>c\<close>, whether \<open>c\<close> was found, and the
  text behind it.
\<close>

definition partition_chr :: "char \<Rightarrow> string \<Rightarrow> string \<times> bool \<times> string" where
  "partition_chr c s =
     (takeWhile (\<lambda>x. x \<noteq> c) s, c \<in> set s, drop 1 (dropWhile (\<lambda>x. x \<noteq> c) s))"

text \<open>The text behind the last \<open>c\<close> of \<open>s\<close>; all of \<open>s\<close> when it has no \<open>c\<close>.\<close>

definition after_last :: "char \<Rightarrow> string \<Rightarrow> string" where
  "after_last c s = rev (takeWhile (\<lambda>x. x \<noteq> c) (rev s))"

text \<open>\<open>s.split(c)\<close> for a one-character separator.\<close>

fun split_chr :: "char \<Rightarrow> string \<Rightarrow> string list" where
  "split_chr c [] = [[]]"
| "split_chr c (x # xs) =
     (if x = c then [] # split_chr c xs
      else (case split_chr c xs of
              [] \<Rightarrow> [[x]]
            | y # ys \<Rightarrow> (x # y) # ys))"

text \<open>\<open>c.join(xs)\<close>.\<close>

fun join_chr :: "char \<Rightarrow> string list \<Rightarrow> string" where
  "join_chr c [] = []"
| "join_chr c [x] = x"
| "join_chr c (x # y # ys) = x @ c # join_chr c (y # ys)"

section \<open>Errors\<close>

datatype error =
    ValidationError
  | AssertionError
  | ValueError
  | KeyError
  | IndexError
  | TransportError
  | OSError
  | FileNotFoundError
  | TypeError

section \<open>URLs: \<open>urllib.parse.urlparse\<close>\<close>

text \<open>
  The standard library's parser, for a \<open>str\<close> argument and the default arguments. Two
  checks of the netloc are kept in outline only: of a host in brackets the model checks
  the alphabet of an IP literal and not its arithmetic, and the check of a non-ASCII
  netloc under NFKC normalisation does not arise on the ASCII range.
\<close>

record ParseResult =
  url_scheme :: string
  url_netloc :: string
  url_path :: string
  url_params :: string
  url_query :: string
  url_fragment :: string

definition isalpha :: "char \<Rightarrow> bool" where
  "isalpha c = (let n = (of_char c :: nat) in (65 \<le> n \<and> n \<le> 90) \<or> (97 \<le> n \<and> n \<le> 122))"

definition scheme_chars :: "char \<Rightarrow> bool" where
  "scheme_chars c = (isalnum c \<or> c \<in> set ''+-.'')"

definition uses_params :: "string list" where
  "uses_params = [[], ''ftp'', ''hdl'', ''prospero'', ''http'', ''imap'',
                  ''https'', ''shttp'', ''rtsp'', ''rtsps'', ''rtspu'', ''sip'',
                  ''sips'', ''mms'', ''sftp'', ''tel'']"

definition ishex :: "char \<Rightarrow> bool" where
  "ishex c = (c \<in> set ''0123456789abcdefABCDEF'')"

definition check_bracketed_host :: "string \<Rightarrow> bool" where
  "check_bracketed_host h =
     (if startswith h ''v''
      then (let (v, dot, rest) = partition_chr CHR ''.'' (drop 1 h)
            in v \<noteq> [] \<and> list_all ishex v \<and> dot \<and> rest \<noteq> [])
      else (let (addr, pct, zone) = partition_chr CHR ''%'' h
            in CHR '':'' \<in> set addr \<and>
               list_all (\<lambda>c. ishex c \<or> c = CHR '':'' \<or> c = CHR ''.'') addr))"

definition splitnetloc :: "string \<Rightarrow> string \<times> string" where
  "splitnetloc u =
     (let rest = drop 2 u
      in (takeWhile (\<lambda>c. c \<notin> set ''/?#'') rest, dropWhile (\<lambda>c. c \<notin> set ''/?#'') rest))"

definition splitparams :: "string \<Rightarrow> string \<times> string" where
  "splitparams u =
     (let final = after_last CHR ''/'' u;
          front = take (length u - length final) u
      in if CHR '';'' \<in> set final
         then (front @ takeWhile (\<lambda>c. c \<noteq> CHR '';'') final,
               drop 1 (dropWhile (\<lambda>c. c \<noteq> CHR '';'') final))
         else (u, []))"

definition urlsplit :: "string \<Rightarrow> error + ParseResult" where
  "urlsplit u0 =
     (let u1 = dropWhile (\<lambda>c. (of_char c :: nat) \<le> 32) u0;
          u2 = filter (\<lambda>c. c \<notin> set [CHR 0x09, CHR 0x0D, CHR 0x0A]) u1;
          pre = takeWhile (\<lambda>c. c \<noteq> CHR '':'') u2;
          (scheme, u3) =
             (if CHR '':'' \<in> set u2 \<and> pre \<noteq> [] \<and> isalpha (hd u2) \<and> list_all scheme_chars pre
              then (lower pre, drop (length pre + 1) u2)
              else ([], u2));
          (netloc, u4) = (if take 2 u3 = ''//'' then splitnetloc u3 else ([], u3));
          lb = CHR ''['' \<in> set netloc;
          rb = CHR '']'' \<in> set netloc
      in if (lb \<and> \<not> rb) \<or> (rb \<and> \<not> lb) then Inl ValueError
         else if lb \<and> rb \<and>
                 \<not> check_bracketed_host
                     (fst (partition_chr CHR '']'' (snd (snd (partition_chr CHR ''['' netloc)))))
         then Inl ValueError
         else
           (let (u5, fragment) =
                  (if CHR ''#'' \<in> set u4
                   then (fst (partition_chr CHR ''#'' u4), snd (snd (partition_chr CHR ''#'' u4)))
                   else (u4, []));
                (u6, query) =
                  (if CHR ''?'' \<in> set u5
                   then (fst (partition_chr CHR ''?'' u5), snd (snd (partition_chr CHR ''?'' u5)))
                   else (u5, []))
            in Inr \<lparr>url_scheme = scheme, url_netloc = netloc, url_path = u6,
                     url_params = [], url_query = query, url_fragment = fragment\<rparr>))"

definition urlparse :: "string \<Rightarrow> error + ParseResult" where
  "urlparse u =
     (case urlsplit u of
        Inl e \<Rightarrow> Inl e
      | Inr r \<Rightarrow>
          (if url_scheme r \<in> set uses_params \<and> CHR '';'' \<in> set (url_path r)
           then Inr (r\<lparr>url_path := fst (splitparams (url_path r)),
                       url_params := snd (splitparams (url_path r))\<rparr>)
           else Inr r))"

text \<open>The \<open>hostname\<close> attribute of a parse result; \<open>None\<close> when the netloc has no host.\<close>

definition hostname :: "ParseResult \<Rightarrow> string option" where
  "hostname r =
     (let hostinfo = after_last CHR ''@'' (url_netloc r);
          (before_br, have_open_br, bracketed) = partition_chr CHR ''['' hostinfo;
          host = (if have_open_br then fst (partition_chr CHR '']'' bracketed)
                  else fst (partition_chr CHR '':'' hostinfo))
      in if host = [] then None
         else (let (h, percent, zone) = partition_chr CHR ''%'' host
               in Some (lower h @ (if percent then ''%'' else []) @ zone)))"

section \<open>Paths: \<open>pathlib\<close> on a POSIX system\<close>

text \<open>
  A pure path is its root (empty, \<open>/\<close> or \<open>//\<close>) and the names below the root; empty
  names and \<open>.\<close> are dropped when a string is parsed.
\<close>

record PurePath =
  path_root :: string
  path_names :: "string list"

definition Path :: "string \<Rightarrow> PurePath" where
  "Path s =
     \<lparr>path_root =
        (if s \<noteq> [] \<and> hd s = CHR ''/''
         then (if length (takeWhile (\<lambda>c. c = CHR ''/'') s) = 2 then ''//'' else ''/'')
         else []),
      path_names = filter (\<lambda>x. x \<noteq> [] \<and> x \<noteq> ''.'') (split_chr CHR ''/'' s)\<rparr>"

text \<open>\<open>p / s\<close>: an absolute \<open>s\<close> replaces \<open>p\<close>.\<close>

definition joinpath :: "PurePath \<Rightarrow> string \<Rightarrow> PurePath" where
  "joinpath p s =
     (let q = Path s
      in if path_root q \<noteq> [] then q
         else \<lparr>path_root = path_root p, path_names = path_names p @ path_names q\<rparr>)"

definition path_name :: "PurePath \<Rightarrow> string" where
  "path_name p = (if path_names p = [] then [] else last (path_names p))"

definition path_parent :: "PurePath \<Rightarrow> PurePath" where
  "path_parent p = p\<lparr>path_names := butlast (path_names p)\<rparr>"

definition path_suffix :: "PurePath \<Rightarrow> string" where
  "path_suffix p =
     (let name = path_name p;
          ext = after_last CHR ''.'' name
      in if CHR ''.'' \<in> set name \<and> ext \<noteq> [] \<and> length ext + 1 < length name
         then CHR ''.'' # ext
         else [])"

definition with_suffix :: "PurePath \<Rightarrow> string \<Rightarrow> error + PurePath" where
  "with_suffix p suffix =
     (if CHR ''/'' \<in> set suffix then Inl ValueError
      else if (suffix \<noteq> [] \<and> \<not> startswith suffix ''.'') \<or> suffix = ''.'' then Inl ValueError
      else (let name = path_name p
            in if name = [] then Inl ValueError
               else (let old_suffix = path_suffix p;
                         name' = (if old_suffix = [] then name @ suffix
                                  else take (length name - length old_suffix) name @ suffix)
                     in Inr (p\<lparr>path_names := butlast (path_names p) @ [name']\<rparr>))))"

text \<open>\<open>str(p)\<close>, which is what \<open>open\<close> receives.\<close>

definition path_str :: "PurePath \<Rightarrow> string" where
  "path_str p =
     (let s = path_root p @ join_chr CHR ''/'' (path_names p)
      in if s = [] then ''.'' else s)"

section \<open>The record model\<close>

record Entry =
  title :: string
  emoji_url :: string
  emoji_name :: string
  tags :: "string list"
  url :: string

subsection \<open>Validation of the configuration\<close>

text \<open>
  What the YAML loader hands over: a string, a sequence, or a mapping. An entry is
  built from the keyword arguments \<open>**x\<close>, a map from field names to loaded values.
\<close>

datatype yaml =
    YStr string
  | YSeq "yaml list"
  | YMap "(string \<times> yaml) list"

text \<open>
  \<open>re.split(r"\s*,\s*", v)\<close>: the leftmost match holds the first comma; it starts where
  the whitespace before that comma starts and, being greedy, takes all the whitespace
  behind it.
\<close>

function re_split_comma :: "string \<Rightarrow> string list" where
  "re_split_comma v =
     (if CHR '','' \<in> set v
      then rstrip (takeWhile (\<lambda>c. c \<noteq> CHR '','') v)
             # re_split_comma (lstrip (drop 1 (dropWhile (\<lambda>c. c \<noteq> CHR '','') v)))
      else [v])"
  by pat_completeness auto
termination
proof (relation "measure length")
  show "wf (measure length)" by simp
next
  fix v :: string
  assume "CHR '','' \<in> set v"
  then have "dropWhile (\<lambda>c. c \<noteq> CHR '','') v \<noteq> []" by simp
  then have "length (drop 1 (dropWhile (\<lambda>c. c \<noteq> CHR '','') v))
               < length (dropWhile (\<lambda>c. c \<noteq> CHR '','') v)"
    by (cases "dropWhile (\<lambda>c. c \<noteq> CHR '','') v") simp_all
  also have "\<dots> \<le> length v" by (rule length_dropWhile_le)
  finally have "length (lstrip (drop 1 (dropWhile (\<lambda>c. c \<noteq> CHR '','') v))) < length v"
    unfolding lstrip_def
    by (meson le_less_trans length_dropWhile_le)
  then show "(lstrip (drop 1 (dropWhile (\<lambda>c. c \<noteq> CHR '','') v)), v) \<in> measure length"
    by simp
qed

declare re_split_comma.simps [simp del]

text \<open>The validator that runs before the field's own validation (\<open>pre=True\<close>).\<close>

fun split_tags :: "yaml \<Rightarrow> yaml" where
  "split_tags (YStr v) = YSeq (map YStr (re_split_comma v))"
| "split_tags v = v"

text \<open>A field of type \<open>str\<close> and a field of type \<open>List[str]\<close>.\<close>

fun validate_str :: "yaml \<Rightarrow> error + string" where
  "validate_str (YStr s) = Inr s"
| "validate_str v = Inl ValidationError"

fun validate_str_items :: "yaml list \<Rightarrow> error + string list" where
  "validate_str_items [] = Inr []"
| "validate_str_items (v # vs) =
     (case validate_str v of
        Inl e \<Rightarrow> Inl e
      | Inr s \<Rightarrow> (case validate_str_items vs of
                     Inl e \<Rightarrow> Inl e
                   | Inr ss \<Rightarrow> Inr (s # ss)))"

fun validate_str_list :: "yaml \<Rightarrow> error + string list" where
  "validate_str_list (YSeq vs) = validate_str_items vs"
| "validate_str_list v = Inl ValidationError"

text \<open>A required field: a missing key fails the validation.\<close>

definition required :: "(string \<rightharpoonup> yaml) \<Rightarrow> string \<Rightarrow> (yaml \<Rightarrow> error + 'a) \<Rightarrow> error + 'a" where
  "required kw k validate = (case kw k of None \<Rightarrow> Inl ValidationError | Some v \<Rightarrow> validate v)"

text \<open>
  \<open>Entry(**x)\<close>. Every field is validated; the model is built when all of them pass.
  The \<open>url\<close> and \<open>emoji_url\<close> fields are declared \<open>str\<close>.
\<close>

definition new_Entry :: "(string \<rightharpoonup> yaml) \<Rightarrow> error + Entry" where
  "new_Entry kw =
     (case required kw ''title'' validate_str of Inl e \<Rightarrow> Inl e | Inr t \<Rightarrow>
      case required kw ''emoji_url'' validate_str of Inl e \<Rightarrow> Inl e | Inr eu \<Rightarrow>
      case required kw ''emoji_name'' validate_str of Inl e \<Rightarrow> Inl e | Inr en \<Rightarrow>
      case required kw ''tags'' (validate_str_list \<circ> split_tags) of Inl e \<Rightarrow> Inl e | Inr ts \<Rightarrow>
      case required kw ''url'' validate_str of Inl e \<Rightarrow> Inl e | Inr u \<Rightarrow>
        Inr \<lparr>title = t, emoji_url = eu, emoji_name = en, tags = ts, url = u\<rparr>)"

subsection \<open>Derived properties of an entry\<close>

definition safe_characters :: "char list" where
  "safe_characters = [CHR ''_'', CHR ''-'']"

definition basename :: "Entry \<Rightarrow> string" where
  "basename e =
     rstrip (filter (\<lambda>c. isalnum c \<or> c \<in> set safe_characters) (re_sub_ws (lower (title e))))"

definition google_drive_file_id :: "Entry \<Rightarrow> error + string" where
  "google_drive_file_id e =
     (case urlparse (url e) of
        Inl err \<Rightarrow> Inl err
      | Inr url_parts \<Rightarrow>
          (if hostname url_parts \<noteq> Some ''docs.google.com'' then Inl AssertionError
           else (let p = Path (url_path url_parts);
                     p' = (if path_name p = ''edit'' then path_parent p else p)
                 in Inr (path_name p'))))"

definition chapter_title :: "Entry \<Rightarrow> string" where
  "chapter_title e = '':'' @ emoji_name e @ '': '' @ title e"

definition build_dir :: PurePath where
  "build_dir = Path ''build''"

definition metadata_target :: "Entry \<Rightarrow> error + PurePath" where
  "metadata_target e = with_suffix (joinpath build_dir (basename e)) ''.yaml''"

definition raw_html_target :: "Entry \<Rightarrow> error + PurePath" where
  "raw_html_target e = with_suffix (joinpath build_dir (basename e)) ''.raw.html''"

definition readable_html_target :: "Entry \<Rightarrow> error + PurePath" where
  "readable_html_target e = with_suffix (joinpath build_dir (basename e)) ''.readable.html''"

definition emoji_target :: "Entry \<Rightarrow> error + PurePath" where
  "emoji_target e =
     (case urlparse (emoji_url e) of
        Inl err \<Rightarrow> Inl err
      | Inr u \<Rightarrow> with_suffix (joinpath build_dir (emoji_name e)) (path_suffix (Path (url_path u))))"

subsection \<open>The collection\<close>

text \<open>The field \<open>title\<close> of the source's \<open>Book\<close> is \<open>book_title\<close> here.\<close>

record Book =
  book_title :: string
  entries :: "Entry list"

text \<open>
  Iterating over a loaded value: the items of a sequence, the characters of a string,
  the keys of a mapping.
\<close>

fun iterate :: "yaml \<Rightarrow> yaml list" where
  "iterate (YSeq xs) = xs"
| "iterate (YStr s) = map (\<lambda>c. YStr [c]) s"
| "iterate (YMap kvs) = map (\<lambda>kv. YStr (fst kv)) kvs"

text \<open>\<open>Entry(**x)\<close>: the argument behind \<open>**\<close> has to be a mapping.\<close>

fun entry_of_yaml :: "yaml \<Rightarrow> error + Entry" where
  "entry_of_yaml (YMap kvs) = new_Entry (map_of (rev kvs))"
| "entry_of_yaml x = Inl TypeError"

fun entries_of_yaml :: "yaml list \<Rightarrow> error + Entry list" where
  "entries_of_yaml [] = Inr []"
| "entries_of_yaml (x # xs) =
     (case entry_of_yaml x of
        Inl e \<Rightarrow> Inl e
      | Inr entry \<Rightarrow> (case entries_of_yaml xs of
                         Inl e \<Rightarrow> Inl e
                       | Inr es \<Rightarrow> Inr (entry # es)))"

text \<open>\<open>content[k]\<close> on the loaded document.\<close>

fun getitem :: "yaml \<Rightarrow> string \<Rightarrow> error + yaml" where
  "getitem (YMap kvs) k = (case map_of (rev kvs) k of None \<Rightarrow> Inl KeyError | Some v \<Rightarrow> Inr v)"
| "getitem x k = Inl TypeError"

text \<open>\<open>Book.from_yaml\<close>, applied to the document that \<open>yaml.load\<close> returned.\<close>

definition from_yaml :: "yaml \<Rightarrow> error + Book" where
  "from_yaml content =
     (case getitem content ''entries'' of Inl e \<Rightarrow> Inl e | Inr xs \<Rightarrow>
      case entries_of_yaml (iterate xs) of Inl e \<Rightarrow> Inl e | Inr es \<Rightarrow>
      case getitem content ''title'' of Inl e \<Rightarrow> Inl e | Inr t \<Rightarrow>
      case validate_str t of Inl e \<Rightarrow> Inl e | Inr t' \<Rightarrow>
        Inr \<lparr>book_title = t', entries = es\<rparr>)"

definition cover_html_target :: "Book \<Rightarrow> PurePath" where
  "cover_html_target b = joinpath build_dir ''cover.html''"

definition cover_image_target :: "Book \<Rightarrow> PurePath" where
  "cover_image_target b = joinpath build_dir ''cover.png''"

definition epub_target :: "Book \<Rightarrow> PurePath" where
  "epub_target b = joinpath build_dir ''book.epub''"

subsection \<open>The identifier: SHA-256 of the title\<close>

unbundle bit_operations_syntax

type_synonym word32 = "32 word"

type_synonym digest =
  "word32 \<times> word32 \<times> word32 \<times> word32 \<times> word32 \<times> word32 \<times> word32 \<times> word32"

text \<open>\<open>str.encode("utf8")\<close> on the characters of the model: one byte below 128, two above.\<close>

definition encode_utf8 :: "string \<Rightarrow> 8 word list" where
  "encode_utf8 s =
     concat (map (\<lambda>c. let n = (of_char c :: nat)
                       in if n < 128 then [of_nat n]
                          else [of_nat (192 + n div 64), of_nat (128 + n mod 64)]) s)"

definition rotr :: "nat \<Rightarrow> word32 \<Rightarrow> word32" where
  "rotr n x = word_rotr n x"

definition Ch :: "word32 \<Rightarrow> word32 \<Rightarrow> word32 \<Rightarrow> word32" where
  "Ch x y z = (x AND y) XOR (NOT x AND z)"

definition Maj :: "word32 \<Rightarrow> word32 \<Rightarrow> word32 \<Rightarrow> word32" where
  "Maj x y z = (x AND y) XOR (x AND z) XOR (y AND z)"

definition Sigma0 :: "word32 \<Rightarrow> word32" where
  "Sigma0 x = rotr 2 x XOR rotr 13 x XOR rotr 22 x"

definition Sigma1 :: "word32 \<Rightarrow> word32" where
  "Sigma1 x = rotr 6 x XOR rotr 11 x XOR rotr 25 x"

definition sigma0 :: "word32 \<Rightarrow> word32" where
  "sigma0 x = rotr 7 x XOR rotr 18 x XOR drop_bit 3 x"

definition sigma1 :: "word32 \<Rightarrow> word32" where
  "sigma1 x = rotr 17 x XOR rotr 19 x XOR drop_bit 10 x"

definition K256 :: "word32 list" where
  "K256 =
   [0x428a2f98, 0x71374491, 0xb5c0fbcf, 0xe9b5dba5, 0x3956c25b, 0x59f111f1,
    0x923f82a4, 0xab1c5ed5, 0xd807aa98, 0x12835b01, 0x243185be, 0x550c7dc3,
    0x72be5d74, 0x80deb1fe, 0x9bdc06a7, 0xc19bf174, 0xe49b69c1, 0xefbe4786,
    0x0fc19dc6, 0x240ca1cc, 0x2de92c6f, 0x4a7484aa, 0x5cb0a9dc, 0x76f988da,
    0x983e5152, 0xa831c66d, 0xb00327c8, 0xbf597fc7, 0xc6e00bf3, 0xd5a79147,
    0x06ca6351, 0x14292967, 0x27b70a85, 0x2e1b2138, 0x4d2c6dfc, 0x53380d13,
    0x650a7354, 0x766a0abb, 0x81c2c92e, 0x92722c85, 0xa2bfe8a1, 0xa81a664b,
    0xc24b8b70, 0xc76c51a3, 0xd192e819, 0xd6990624, 0xf40e3585, 0x106aa070,
    0x19a4c116, 0x1e376c08, 0x2748774c, 0x34b0bcb5, 0x391c0cb3, 0x4ed8aa4a,
    0x5b9cca4f, 0x682e6ff3, 0x748f82ee, 0x78a5636f, 0x84c87814, 0x8cc70208,
    0x90befffa, 0xa4506ceb, 0xbef9a3f7, 0xc67178f2]"

definition H256 :: digest where
  "H256 = (0x6a09e667, 0xbb67ae85, 0x3c6ef372, 0xa54ff53a,
           0x510e527f, 0x9b05688c, 0x1f83d9ab, 0x5be0cd19)"

text \<open>
  Padding: the byte \<open>0x80\<close>, zero bytes up to 56 modulo 64, and the length of the message
  in bits as eight bytes, the most significant first.
\<close>

definition sha256_pad :: "8 word list \<Rightarrow> 8 word list" where
  "sha256_pad m =
     (let l = length m;
          bits = (of_nat (8 * l) :: 64 word)
      in m @ [0x80] @ replicate ((119 - l mod 64) mod 64) 0
           @ map (\<lambda>i. ucast (drop_bit (8 * (7 - i)) bits)) [0..<8])"

fun be_words :: "8 word list \<Rightarrow> word32 list" where
  "be_words (a # b # c # d # r) =
     (push_bit 24 (ucast a) OR push_bit 16 (ucast b) OR push_bit 8 (ucast c) OR ucast d)
       # be_words r"
| "be_words r = []"

definition blocks :: "word32 list \<Rightarrow> word32 list list" where
  "blocks ws = map (\<lambda>i. take 16 (drop (16 * i) ws)) [0..<length ws div 16]"

fun schedule :: "nat \<Rightarrow> word32 list \<Rightarrow> word32 list" where
  "schedule 0 w = w"
| "schedule (Suc k) w =
     (let t = length w
      in schedule k (w @ [sigma1 (w ! (t - 2)) + w ! (t - 7) + sigma0 (w ! (t - 15)) + w ! (t - 16)]))"

fun sha256_round :: "word32 \<times> word32 \<Rightarrow> digest \<Rightarrow> digest" where
  "sha256_round (k, w) (a, b, c, d, e, f, g, h) =
     (let t1 = h + Sigma1 e + Ch e f g + k + w;
          t2 = Sigma0 a + Maj a b c
      in (t1 + t2, a, b, c, d + t1, e, f, g))"

fun add_digest :: "digest \<Rightarrow> digest \<Rightarrow> digest" where
  "add_digest (a, b, c, d, e, f, g, h) (a', b', c', d', e', f', g', h') =
     (a + a', b + b', c + c', d + d', e + e', f + f', g + g', h + h')"

definition compress :: "word32 list \<Rightarrow> digest \<Rightarrow> digest" where
  "compress block hs = add_digest hs (fold sha256_round (zip K256 (schedule 48 block)) hs)"

definition sha256 :: "8 word list \<Rightarrow> digest" where
  "sha256 m = fold compress (blocks (be_words (sha256_pad m))) H256"

definition hex8 :: "word32 \<Rightarrow> string" where
  "hex8 w = map (\<lambda>i. ''0123456789abcdef'' ! unat (drop_bit (4 * (7 - i)) w AND 15)) [0..<8]"

fun hexdigest :: "digest \<Rightarrow> string" where
  "hexdigest (a, b, c, d, e, f, g, h) =
     hex8 a @ hex8 b @ hex8 c @ hex8 d @ hex8 e @ hex8 f @ hex8 g @ hex8 h"

text \<open>The property \<open>identifier\<close> of the source; the name is reserved here.\<close>

definition book_identifier :: "Book \<Rightarrow> string" where
  "book_identifier b = hexdigest (sha256 (encode_utf8 (book_title b)))"

section \<open>The world of a build\<close>

text \<open>
  A task body acts on the files of the build directory and on the network. A file has
  its content and its modification time. The world also holds what the body cannot
  decide: the clock, the environment variables, what the remote servers answer to a
  request (a response of any status, or an exception of the transport), and how many
  characters a write can store before the operating system refuses (\<open>None\<close>: no
  limit). The requests that were sent are logged.
\<close>

text \<open>The attributes \<open>text\<close> and \<open>content\<close> of a response are \<open>resp_text\<close> and \<open>resp_content\<close>.\<close>

record response =
  status_code :: nat
  resp_text :: string
  resp_content :: string

record request =
  req_url :: string
  req_params :: "(string \<times> string) list"

record fs_file =
  data :: string
  mtime :: nat

record world =
  files :: "string \<rightharpoonup> fs_file"
  clock :: nat
  environ :: "string \<rightharpoonup> string"
  server :: "request \<Rightarrow> error + response"
  capacity :: "nat option"
  requests :: "request list"

type_synonym 'a io = "world \<Rightarrow> (error + 'a) \<times> world"

text \<open>\<open>httpx.get\<close>: one request; a response of any status is returned as it is.\<close>

definition httpx_get :: "string \<Rightarrow> (string \<times> string) list \<Rightarrow> response io" where
  "httpx_get u ps w =
     (let req = \<lparr>req_url = u, req_params = ps\<rparr>
      in (server w req, w\<lparr>requests := requests w @ [req]\<rparr>))"

text \<open>
  \<open>with open(path, "w") as f: f.write(s)\<close>: opening creates the file at \<open>path\<close>, or empties
  the one that is there; then the content is written to it.
\<close>

definition open_w :: "string \<Rightarrow> world \<Rightarrow> world" where
  "open_w p w = w\<lparr>files := (files w)(p \<mapsto> \<lparr>data = [], mtime = clock w\<rparr>)\<rparr>"

definition write_str :: "string \<Rightarrow> string \<Rightarrow> unit io" where
  "write_str p s w =
     (case capacity w of
        None \<Rightarrow> (Inr (), w\<lparr>files := (files w)(p \<mapsto> \<lparr>data = s, mtime = clock w\<rparr>)\<rparr>)
      | Some k \<Rightarrow>
          (if length s \<le> k
           then (Inr (), w\<lparr>files := (files w)(p \<mapsto> \<lparr>data = s, mtime = clock w\<rparr>)\<rparr>)
           else (Inl OSError, w\<lparr>files := (files w)(p \<mapsto> \<lparr>data = take k s, mtime = clock w\<rparr>)\<rparr>)))"

definition open_and_write :: "string \<Rightarrow> string \<Rightarrow> unit io" where
  "open_and_write p s w = write_str p s (open_w p w)"

text \<open>\<open>path.read_text()\<close> and \<open>path.read_bytes()\<close>.\<close>

definition read_file :: "world \<Rightarrow> PurePath \<Rightarrow> error + string" where
  "read_file w p = (case files w (path_str p) of None \<Rightarrow> Inl FileNotFoundError | Some f \<Rightarrow> Inr (data f))"

section \<open>The fetch tasks\<close>

text \<open>The body of a task receives the task's targets, as strings.\<close>

definition download_html :: "Entry \<Rightarrow> string list \<Rightarrow> unit io" where
  "download_html entry targets w =
     (case google_drive_file_id entry of
        Inl e \<Rightarrow> (Inl e, w)
      | Inr file_id \<Rightarrow>
          (case environ w ''GOOGLE_API_KEY'' of
             None \<Rightarrow> (Inl KeyError, w)
           | Some key \<Rightarrow>
               (case httpx_get (''https://www.googleapis.com/drive/v3/files/'' @ file_id @ ''/export'')
                       [(''mimeType'', ''text/html''), (''key'', key)] w of
                  (Inl e, w') \<Rightarrow> (Inl e, w')
                | (Inr response, w') \<Rightarrow>
                    (case targets of
                       [] \<Rightarrow> (Inl IndexError, w')
                     | t # ts \<Rightarrow> open_and_write t (resp_text response) w'))))"

definition download_emoji :: "Entry \<Rightarrow> string list \<Rightarrow> unit io" where
  "download_emoji entry targets w =
     (case httpx_get (emoji_url entry) [] w of
        (Inl e, w') \<Rightarrow> (Inl e, w')
      | (Inr response, w') \<Rightarrow>
          (case targets of
             [] \<Rightarrow> (Inl IndexError, w')
           | t # ts \<Rightarrow> open_and_write t (resp_content response) w'))"

record task =
  task_name :: string
  file_dep :: "string list"
  targets :: "string list"
  actions :: "(string list \<Rightarrow> unit io) list"

text \<open>One task for each entry, in the order of the entries.\<close>

fun task_raw_html :: "Entry list \<Rightarrow> error + task list" where
  "task_raw_html [] = Inr []"
| "task_raw_html (entry # rest) =
     (case metadata_target entry of Inl e \<Rightarrow> Inl e | Inr dep \<Rightarrow>
      case raw_html_target entry of Inl e \<Rightarrow> Inl e | Inr tgt \<Rightarrow>
      case task_raw_html rest of Inl e \<Rightarrow> Inl e | Inr ts \<Rightarrow>
        Inr (\<lparr>task_name = basename entry, file_dep = [path_str dep],
              targets = [path_str tgt], actions = [download_html entry]\<rparr> # ts))"

fun task_emoji :: "Entry list \<Rightarrow> error + task list" where
  "task_emoji [] = Inr []"
| "task_emoji (entry # rest) =
     (case metadata_target entry of Inl e \<Rightarrow> Inl e | Inr dep \<Rightarrow>
      case emoji_target entry of Inl e \<Rightarrow> Inl e | Inr tgt \<Rightarrow>
      case task_emoji rest of Inl e \<Rightarrow> Inl e | Inr ts \<Rightarrow>
        Inr (\<lparr>task_name = basename entry, file_dep = [path_str dep],
              targets = [path_str tgt], actions = [download_emoji entry]\<rparr> # ts))"


section \<open>The packaging task\<close>

text \<open>
  The keyword arguments that \<open>make_epub\<close> hands to the chapter template. The template
  engine is outside the source: the content of a chapter is kept as these arguments.
  The arguments \<open>title\<close>, \<open>url\<close>, \<open>tags\<close> and \<open>emoji_name\<close> carry the prefix \<open>ctx_\<close>.
\<close>

record chapter_context =
  raw_html :: string
  ctx_title :: string
  ctx_url :: string
  ctx_tags :: "string list"
  emoji_file_name :: string
  ctx_emoji_name :: string
  raw_html_includes_title :: bool
  raw_html_includes_tags :: bool
  raw_html_failed_to_export :: bool

definition render_context :: "Entry \<Rightarrow> string \<Rightarrow> string \<Rightarrow> chapter_context" where
  "render_context entry emoji_file raw =
     (let raw_html_lower = lower raw
      in \<lparr>raw_html = raw,
          ctx_title = title entry,
          ctx_url = url entry,
          ctx_tags = tags entry,
          emoji_file_name = emoji_file,
          ctx_emoji_name = emoji_name entry,
          raw_html_includes_title = py_in (lower (title entry)) raw_html_lower,
          raw_html_includes_tags = list_all (\<lambda>tag. py_in (lower tag) raw_html_lower) (tags entry),
          raw_html_failed_to_export = py_in ''cannotExportFile'' raw\<rparr>)"

text \<open>The items of the packaging library that the source creates.\<close>

record EpubHtml =
  html_title :: string
  html_file_name :: string
  html_lang :: string
  html_content :: chapter_context

datatype item =
    EpubCover string string
  | EpubCoverHtml string
  | EpubImage string string
  | Chapter EpubHtml
  | EpubNcx
  | EpubNav
  | EpubItem string string string string

text \<open>The spine holds items, or the identifier of an item as a string.\<close>

datatype spine_entry = SpineItem item | SpineId string

record EpubBook =
  epub_identifier :: string
  epub_title :: string
  epub_language :: string
  epub_authors :: "string list"
  epub_items :: "item list"
  epub_toc :: "EpubHtml list"
  epub_spine :: "spine_entry list"

text \<open>The decimal numeral of a number, and the format \<open>{n:02}\<close>.\<close>

function str_nat :: "nat \<Rightarrow> string" where
  "str_nat n = (if n < 10 then [''0123456789'' ! n] else str_nat (n div 10) @ [''0123456789'' ! (n mod 10)])"
  by pat_completeness auto
termination
  by (relation "measure id") auto

declare str_nat.simps [simp del]

definition format_02 :: "nat \<Rightarrow> string" where
  "format_02 n = (let s = str_nat n in replicate (2 - length s) CHR ''0'' @ s)"

text \<open>
  The loop over \<open>enumerate(book.entries)\<close>: \<open>i\<close> counts the entries done, \<open>its\<close> are the
  items added to the book so far and \<open>chapters\<close> is the list of the same name.
\<close>

fun make_chapters ::
  "world \<Rightarrow> nat \<Rightarrow> Entry list \<Rightarrow> item list \<Rightarrow> EpubHtml list \<Rightarrow> error + item list \<times> EpubHtml list" where
  "make_chapters w i [] its chapters = Inr (its, chapters)"
| "make_chapters w i (entry # rest) its chapters =
     (let chapter_number = i + 1
      in case emoji_target entry of Inl e \<Rightarrow> Inl e | Inr et \<Rightarrow>
         case read_file w et of Inl e \<Rightarrow> Inl e | Inr emoji_content \<Rightarrow>
         case raw_html_target entry of Inl e \<Rightarrow> Inl e | Inr rt \<Rightarrow>
         case read_file w rt of Inl e \<Rightarrow> Inl e | Inr raw \<Rightarrow>
           (let chapter = \<lparr>html_title = chapter_title entry,
                           html_file_name = ''chapter_'' @ format_02 chapter_number @ ''.xhtml'',
                           html_lang = ''en'',
                           html_content = render_context entry (path_name et) raw\<rparr>
            in make_chapters w (i + 1) rest
                 (its @ [EpubImage (path_name et) emoji_content, Chapter chapter])
                 (chapters @ [chapter])))"

text \<open>
  \<open>make_epub\<close>, up to the call of \<open>epub.write_epub\<close>: the result is the book that is
  handed to the packaging library.
\<close>

definition make_epub :: "Book \<Rightarrow> world \<Rightarrow> error + EpubBook" where
  "make_epub book w =
     (case read_file w (cover_image_target book) of Inl e \<Rightarrow> Inl e | Inr cover \<Rightarrow>
      let cover_page = EpubCoverHtml ''cover.png''
      in case make_chapters w 0 (entries book) [EpubCover ''cover.png'' cover, cover_page] [] of
           Inl e \<Rightarrow> Inl e
         | Inr (its, chapters) \<Rightarrow>
             (case read_file w (Path ''stylesheets/style.css'') of
                Inl e \<Rightarrow> Inl e
              | Inr stylesheet \<Rightarrow>
                  Inr \<lparr>epub_identifier = book_identifier book,
                       epub_title = book_title book,
                       epub_language = ''en'',
                       epub_authors = [''Various Authors''],
                       epub_items = its @ [EpubNcx, EpubNav,
                                           EpubItem ''style_nav'' ''style.css'' ''text/css'' stylesheet],
                       epub_toc = chapters,
                       epub_spine = SpineItem cover_page # SpineId ''nav''
                                      # map (\<lambda>c. SpineItem (Chapter c)) chapters\<rparr>))"

section \<open>The specification's words\<close>

subsection \<open>The basename\<close>

text \<open>
  The title is cut into its maximal runs, alternately of whitespace and of other
  characters; a run of whitespace becomes one hyphen and any other run is kept.
\<close>

function hyphenate_runs :: "string \<Rightarrow> string" where
  "hyphenate_runs s =
     (if s = [] then []
      else if isspace (hd s) then CHR ''-'' # hyphenate_runs (dropWhile isspace s)
      else takeWhile (\<lambda>c. \<not> isspace c) s @ hyphenate_runs (dropWhile (\<lambda>c. \<not> isspace c) s))"
  by pat_completeness auto
termination
proof (relation "measure length")
  show "wf (measure length)" by simp
next
  fix s :: string
  assume "s \<noteq> []" "isspace (hd s)"
  then have "length (dropWhile isspace s) < length s"
    by (cases s) (auto simp: less_Suc_eq_le length_dropWhile_le)
  then show "(dropWhile isspace s, s) \<in> measure length" by simp
next
  fix s :: string
  assume "s \<noteq> []" "\<not> isspace (hd s)"
  then have "length (dropWhile (\<lambda>c. \<not> isspace c) s) < length s"
    by (cases s) (auto simp: less_Suc_eq_le length_dropWhile_le)
  then show "(dropWhile (\<lambda>c. \<not> isspace c) s, s) \<in> measure length" by simp
qed

declare hyphenate_runs.simps [simp del]

definition basename_spec :: "string \<Rightarrow> string" where
  "basename_spec t =
     filter (\<lambda>c. isalnum c \<or> c = CHR ''_'' \<or> c = CHR ''-'') (hyphenate_runs (lower t))"

subsection \<open>Occurrence in a text\<close>



subsection \<open>The document identity\<close>

text \<open>
  The segments of a URL path are the texts between its slashes, without the empty ones
  and without \<open>.\<close>. The identity is the final segment, after one trailing segment
  \<open>edit\<close> has been taken off; it is empty when no segment is left.
\<close>

definition segments :: "string \<Rightarrow> string list" where
  "segments p = filter (\<lambda>x. x \<noteq> [] \<and> x \<noteq> ''.'') (split_chr CHR ''/'' p)"

definition final_segment :: "string list \<Rightarrow> string" where
  "final_segment segs = (if segs = [] then [] else last segs)"

definition document_identity :: "string \<Rightarrow> string" where
  "document_identity p =
     (let segs = segments p
      in if segs \<noteq> [] \<and> last segs = ''edit'' then final_segment (butlast segs)
         else final_segment segs)"

subsection \<open>The suffix of the icon URL\<close>

definition icon_suffix :: "Entry \<Rightarrow> error + string" where
  "icon_suffix e =
     (case urlparse (emoji_url e) of
        Inl err \<Rightarrow> Inl err
      | Inr u \<Rightarrow> Inr (path_suffix (Path (url_path u))))"

subsection \<open>Tags as one string\<close>

text \<open>
  A tag list written as one string: the first tag, and for each further tag the
  whitespace before the comma, the comma, the whitespace behind it, and the tag. A tag
  that can be written so has no comma and neither starts nor ends with whitespace.
\<close>

fun comma_string :: "string \<Rightarrow> (string \<times> string \<times> string) list \<Rightarrow> string" where
  "comma_string t [] = t"
| "comma_string t ((w1, w2, t') # r) = t @ w1 @ CHR '','' # w2 @ comma_string t' r"

definition plain_tag :: "string \<Rightarrow> bool" where
  "plain_tag t = (CHR '','' \<notin> set t \<and> (t = [] \<or> (\<not> isspace (hd t) \<and> \<not> isspace (last t))))"

definition separators_ok :: "(string \<times> string \<times> string) list \<Rightarrow> bool" where
  "separators_ok r =
     list_all (\<lambda>(w1, w2, t'). list_all isspace w1 \<and> list_all isspace w2 \<and> plain_tag t') r"

definition normalize_tags :: "yaml \<Rightarrow> error + string list" where
  "normalize_tags v = validate_str_list (split_tags v)"

subsection \<open>The chapters among the items of a book\<close>

fun chapters_of :: "item list \<Rightarrow> EpubHtml list" where
  "chapters_of [] = []"
| "chapters_of (Chapter c # its) = c # chapters_of its"
| "chapters_of (it # its) = chapters_of its"

text \<open>All the files that \<open>make_epub\<close> reads are there.\<close>

definition entry_ready :: "world \<Rightarrow> Entry \<Rightarrow> bool" where
  "entry_ready w e =
     (case emoji_target e of
        Inl err \<Rightarrow> False
      | Inr et \<Rightarrow>
          (case raw_html_target e of
             Inl err \<Rightarrow> False
           | Inr rt \<Rightarrow> files w (path_str et) \<noteq> None \<and> files w (path_str rt) \<noteq> None))"

definition inputs_ready :: "Book \<Rightarrow> world \<Rightarrow> bool" where
  "inputs_ready b w =
     (files w (path_str (cover_image_target b)) \<noteq> None \<and>
      files w (path_str (Path ''stylesheets/style.css'')) \<noteq> None \<and>
      list_all (entry_ready w) (entries b))"

section \<open>Examples\<close>

definition hello_entry :: Entry where
  "hello_entry =
     \<lparr>title = ''Hello World'',
      emoji_url = ''https://emoji.example.org/img/grin.png'',
      emoji_name = ''grin'',
      tags = [''fun'', ''test''],
      url = ''https://docs.google.com/document/d/ABC123/edit''\<rparr>"

definition other_entry :: Entry where
  "other_entry =
     \<lparr>title = ''Second Story'',
      emoji_url = ''http://cdn.example.net/a/b/smile.v2.png?size=64'',
      emoji_name = ''grin'',
      tags = [''fiction''],
      url = ''https://docs.google.com/document/d/XYZ789/''\<rparr>"

definition reading_list :: Book where
  "reading_list = \<lparr>book_title = ''Reading List'', entries = [hello_entry, other_entry]\<rparr>"

definition bad_url_config :: yaml where
  "bad_url_config =
     YMap [(''title'', YStr ''Reading List''),
           (''entries'',
            YSeq [YMap [(''title'', YStr ''Hello World''),
                        (''emoji_url'', YStr ''https://emoji.example.org/img/grin.png''),
                        (''emoji_name'', YStr ''grin''),
                        (''tags'', YStr ''fun, test''),
                        (''url'', YStr ''not a url'')]])]"

definition export_server :: "request \<Rightarrow> error + response" where
  "export_server req =
     Inr \<lparr>status_code = 200, resp_text = ''<html>Hello World</html>'', resp_content = ''PNG''\<rparr>"

definition failing_server :: "request \<Rightarrow> error + response" where
  "failing_server req =
     Inr \<lparr>status_code = 403, resp_text = ''{error: cannotExportFile}'', resp_content = []\<rparr>"

definition w0 :: world where
  "w0 =
     \<lparr>files = [''build/hello-world.yaml'' \<mapsto> \<lparr>data = ''title: Hello World'', mtime = 1\<rparr>],
      clock = 2,
      environ = [''GOOGLE_API_KEY'' \<mapsto> ''secret''],
      server = export_server,
      capacity = None,
      requests = []\<rparr>"

definition ready_world :: world where
  "ready_world =
     w0\<lparr>files :=
          [''build/cover.png'' \<mapsto> \<lparr>data = ''COVER'', mtime = 1\<rparr>,
           ''stylesheets/style.css'' \<mapsto> \<lparr>data = ''body {}'', mtime = 1\<rparr>,
           ''build/grin.png'' \<mapsto> \<lparr>data = ''PNG'', mtime = 1\<rparr>,
           ''build/hello-world.raw.html'' \<mapsto> \<lparr>data = ''<html>Hello World</html>'', mtime = 1\<rparr>,
           ''build/second-story.raw.html'' \<mapsto>
             \<lparr>data = ''{error: cannotExportFile}'', mtime = 1\<rparr>]\<rparr>"



section \<open>Properties of the basename\<close>

lemma hyphenate_runs_Nil: "hyphenate_runs [] = []"
  by (subst hyphenate_runs.simps) simp

lemma hyphenate_runs_space:
  "isspace c \<Longrightarrow> hyphenate_runs (c # cs) = CHR ''-'' # hyphenate_runs (dropWhile isspace cs)"
  by (subst hyphenate_runs.simps) simp

lemma hyphenate_runs_split:
  "hyphenate_runs s =
     takeWhile (\<lambda>c. \<not> isspace c) s @ hyphenate_runs (dropWhile (\<lambda>c. \<not> isspace c) s)"
proof (cases "s = [] \<or> isspace (hd s)")
  case True
  then show ?thesis by (cases s) auto
next
  case False
  then show ?thesis by (subst hyphenate_runs.simps) simp
qed

lemma hyphenate_runs_nonspace:
  "\<not> isspace c \<Longrightarrow> hyphenate_runs (c # cs) = c # hyphenate_runs cs"
proof -
  assume c: "\<not> isspace c"
  have "hyphenate_runs (c # cs) =
          c # takeWhile (\<lambda>c. \<not> isspace c) cs @ hyphenate_runs (dropWhile (\<lambda>c. \<not> isspace c) cs)"
    using c by (subst hyphenate_runs_split) simp
  also have "\<dots> = c # hyphenate_runs cs"
    by (subst (2) hyphenate_runs_split) simp
  finally show ?thesis .
qed

lemma re_sub_ws_hyphenate_runs: "re_sub_ws s = hyphenate_runs s"
  by (induction s rule: re_sub_ws.induct)
     (simp_all add: hyphenate_runs_Nil hyphenate_runs_space hyphenate_runs_nonspace)

lemma isalnum_not_isspace: "isalnum c \<Longrightarrow> \<not> isspace c"
  by (auto simp: isalnum_def isspace_def Let_def)

lemma rstrip_no_trailing_space:
  assumes "\<forall>c \<in> set s. \<not> isspace c"
  shows "rstrip s = s"
proof (cases "rev s")
  case Nil
  then show ?thesis by (simp add: rstrip_def)
next
  case (Cons c cs)
  then have "c \<in> set s" by (metis list.set_intros(1) set_rev)
  with assms have "\<not> isspace c" by blast
  with Cons have "dropWhile isspace (rev s) = rev s" by simp
  then show ?thesis by (simp add: rstrip_def)
qed

lemma rstrip_filter_safe:
  "rstrip (filter (\<lambda>c. isalnum c \<or> c \<in> set safe_characters) s) =
     filter (\<lambda>c. isalnum c \<or> c \<in> set safe_characters) s"
  by (rule rstrip_no_trailing_space)
     (auto simp: safe_characters_def isspace_def dest: isalnum_not_isspace)

text \<open>
  C5. The basename of an entry is its title lowercased, with every maximal run of
  whitespace replaced by one hyphen and every character that is neither alphanumeric
  nor \<open>_\<close> nor \<open>-\<close> removed; entries with the same title have the same basename.
\<close>

theorem basename_is_spec:
  "basename e = basename_spec (title e) \<and>
   (title e = title e' \<longrightarrow> basename e = basename e')"
proof -
  have "basename x = filter (\<lambda>c. isalnum c \<or> c \<in> set safe_characters)
                        (hyphenate_runs (lower (title x)))" for x
    by (simp only: basename_def rstrip_filter_safe re_sub_ws_hyphenate_runs)
  then have "basename x = basename_spec (title x)" for x
    by (simp add: basename_spec_def safe_characters_def)
  then show ?thesis by simp
qed


theorem basename_is_spec_witness:
  "title hello_entry = title (hello_entry\<lparr>url := ''https://example.org/''\<rparr>) \<and>
   basename hello_entry = basename (hello_entry\<lparr>url := ''https://example.org/''\<rparr>) \<and>
   basename_spec (title hello_entry) = ''hello-world''"
proof -
  have t: "title hello_entry = title (hello_entry\<lparr>url := ''https://example.org/''\<rparr>)"
    by simp
  have b: "basename hello_entry = ''hello-world''"
    by (simp add: hello_entry_def basename_def rstrip_def lower_def lower_char_def
        ascii_uppercase_def ascii_lowercase_def isspace_def isalnum_def safe_characters_def)
  from basename_is_spec [of hello_entry "hello_entry\<lparr>url := ''https://example.org/''\<rparr>"]
  have s: "basename hello_entry = basename_spec (title hello_entry)"
    and d: "title hello_entry = title (hello_entry\<lparr>url := ''https://example.org/''\<rparr>) \<longrightarrow>
            basename hello_entry = basename (hello_entry\<lparr>url := ''https://example.org/''\<rparr>)"
    by blast+
  from d t have "basename hello_entry = basename (hello_entry\<lparr>url := ''https://example.org/''\<rparr>)"
    by blast
  moreover from s [symmetric] b have "basename_spec (title hello_entry) = ''hello-world''"
    by (rule trans)
  ultimately show ?thesis using t by blast
qed

section \<open>The flags of a chapter\<close>








section \<open>The document identity\<close>

lemma path_name_Path: "path_name (Path p) = final_segment (segments p)"
  by (simp add: path_name_def Path_def final_segment_def segments_def)

lemma path_name_parent_Path: "path_name (path_parent (Path p)) = final_segment (butlast (segments p))"
  by (simp add: path_name_def path_parent_def Path_def final_segment_def segments_def)

lemma final_segment_edit: "final_segment segs = ''edit'' \<longleftrightarrow> segs \<noteq> [] \<and> last segs = ''edit''"
  by (auto simp: final_segment_def)

text \<open>
  C4. When the URL parses and its host is \<open>docs.google.com\<close>, the document identity is
  the final segment of the URL's path after one trailing segment \<open>edit\<close> has been taken
  off; when the host is another one, or there is none, the assertion fails. The
  assertion is what the specification calls a precondition error.
\<close>

theorem google_drive_file_id_spec:
  "google_drive_file_id e =
     (case urlparse (url e) of
        Inl err \<Rightarrow> Inl err
      | Inr u \<Rightarrow>
          if hostname u = Some ''docs.google.com'' then Inr (document_identity (url_path u))
          else Inl AssertionError)"
  by (simp add: google_drive_file_id_def document_identity_def Let_def path_name_Path
      path_name_parent_Path final_segment_edit split: sum.splits)

theorem google_drive_file_id_spec_witness:
  "google_drive_file_id hello_entry = Inr ''ABC123'' \<and>
   google_drive_file_id (hello_entry\<lparr>url := ''https://drive.example.com/document/d/ABC123/edit''\<rparr>)
     = Inl AssertionError"
proof -
  have u1: "urlparse ''https://docs.google.com/document/d/ABC123/edit'' =
              Inr \<lparr>url_scheme = ''https'', url_netloc = ''docs.google.com'',
                   url_path = ''/document/d/ABC123/edit'', url_params = [], url_query = [],
                   url_fragment = []\<rparr>"
    by code_simp
  have h1: "hostname \<lparr>url_scheme = ''https'', url_netloc = ''docs.google.com'',
                       url_path = ''/document/d/ABC123/edit'', url_params = [], url_query = [],
                       url_fragment = []\<rparr> = Some ''docs.google.com''"
    by code_simp
  have d1: "document_identity ''/document/d/ABC123/edit'' = ''ABC123''"
    by code_simp
  have u2: "urlparse ''https://drive.example.com/document/d/ABC123/edit'' =
              Inr \<lparr>url_scheme = ''https'', url_netloc = ''drive.example.com'',
                   url_path = ''/document/d/ABC123/edit'', url_params = [], url_query = [],
                   url_fragment = []\<rparr>"
    by code_simp
  have h2: "hostname \<lparr>url_scheme = ''https'', url_netloc = ''drive.example.com'',
                       url_path = ''/document/d/ABC123/edit'', url_params = [], url_query = [],
                       url_fragment = []\<rparr> = Some ''drive.example.com''"
    by code_simp
  have "google_drive_file_id hello_entry = Inr ''ABC123''"
    using google_drive_file_id_spec [of hello_entry] u1 h1 d1
    by (simp add: hello_entry_def)
  moreover
  have "google_drive_file_id (hello_entry\<lparr>url := ''https://drive.example.com/document/d/ABC123/edit''\<rparr>)
          = Inl AssertionError"
    using google_drive_file_id_spec
            [of "hello_entry\<lparr>url := ''https://drive.example.com/document/d/ABC123/edit''\<rparr>"] u2 h2
    by simp
  ultimately show ?thesis by simp
qed

section \<open>The icon target\<close>

lemma emoji_target_icon_suffix:
  "emoji_target e =
     (case icon_suffix e of
        Inl err \<Rightarrow> Inl err
      | Inr s \<Rightarrow> with_suffix (joinpath build_dir (emoji_name e)) s)"
  by (simp add: emoji_target_def icon_suffix_def split: sum.splits)

lemma task_emoji_targets:
  "task_emoji es = Inr ts \<Longrightarrow>
     list_all2 (\<lambda>e t. \<exists>p. emoji_target e = Inr p \<and> targets t = [path_str p]) es ts"
proof (induction es arbitrary: ts)
  case Nil
  then show ?case by simp
next
  case (Cons e es)
  then show ?case by (auto split: sum.splits)
qed

text \<open>
  C10. The icon target of an entry is determined by its \<open>emoji_name\<close> and by the suffix
  of the path of its \<open>emoji_url\<close>: entries that agree in both have the same icon target,
  and their icon-fetch tasks declare the same target file.
\<close>

theorem emoji_target_shared:
  "emoji_name e1 = emoji_name e2 \<Longrightarrow> icon_suffix e1 = icon_suffix e2 \<Longrightarrow>
     emoji_target e1 = emoji_target e2 \<and>
     (\<forall>es ts i j. task_emoji es = Inr ts \<and> i < length es \<and> j < length es \<and>
                   es ! i = e1 \<and> es ! j = e2 \<longrightarrow> targets (ts ! i) = targets (ts ! j))"
proof -
  assume n: "emoji_name e1 = emoji_name e2" and s: "icon_suffix e1 = icon_suffix e2"
  have eq: "emoji_target e1 = emoji_target e2"
    unfolding emoji_target_icon_suffix n s by (rule refl)
  have "targets (ts ! i) = targets (ts ! j)"
    if t: "task_emoji es = Inr ts" and i: "i < length es" and j: "j < length es"
      and ei: "es ! i = e1" and ej: "es ! j = e2" for es ts i j
  proof -
    from task_emoji_targets [OF t]
    have l: "list_all2 (\<lambda>e t. \<exists>p. emoji_target e = Inr p \<and> targets t = [path_str p]) es ts" .
    from list_all2_nthD [OF l i] ei
    obtain p where p: "emoji_target e1 = Inr p" "targets (ts ! i) = [path_str p]" by auto
    from list_all2_nthD [OF l j] ej
    obtain q where q: "emoji_target e2 = Inr q" "targets (ts ! j) = [path_str q]" by auto
    from p q eq show ?thesis by simp
  qed
  with eq show ?thesis by blast
qed

theorem emoji_target_shared_witness:
  "title hello_entry \<noteq> title other_entry \<and>
   emoji_url hello_entry \<noteq> emoji_url other_entry \<and>
   emoji_name hello_entry = emoji_name other_entry \<and>
   icon_suffix hello_entry = icon_suffix other_entry \<and>
   emoji_target hello_entry = emoji_target other_entry \<and>
   map_sum id (map targets) (task_emoji [hello_entry, other_entry])
     = Inr [[''build/grin.png''], [''build/grin.png'']]"
proof -
  have n: "emoji_name hello_entry = emoji_name other_entry"
    by (simp add: hello_entry_def other_entry_def)
  have s1: "icon_suffix hello_entry = Inr ''.png''" by code_simp
  have s2: "icon_suffix other_entry = Inr ''.png''" by code_simp
  have s: "icon_suffix hello_entry = icon_suffix other_entry" by (simp add: s1 s2)
  have t: "map_sum id (map targets) (task_emoji [hello_entry, other_entry])
             = Inr [[''build/grin.png''], [''build/grin.png'']]"
    by code_simp
  have d: "title hello_entry \<noteq> title other_entry \<and> emoji_url hello_entry \<noteq> emoji_url other_entry"
    by (simp add: hello_entry_def other_entry_def)
  from emoji_target_shared [OF n s] have "emoji_target hello_entry = emoji_target other_entry"
    by blast
  with n s t d show ?thesis by blast
qed

section \<open>Tags\<close>

lemma validate_str_items_strings: "validate_str_items (map YStr xs) = Inr xs"
  by (induction xs) simp_all

lemma rstrip_spaces: "list_all isspace w \<Longrightarrow> rstrip w = []"
  by (simp add: rstrip_def list_all_iff dropWhile_eq_Nil_conv)

lemma rstrip_plain_spaces:
  assumes "plain_tag t" "list_all isspace w"
  shows "rstrip (t @ w) = t"
proof (cases t rule: rev_cases)
  case Nil
  with assms show ?thesis by (simp add: rstrip_spaces)
next
  case (snoc ys y)
  with assms(1) have y: "\<not> isspace y" by (simp add: plain_tag_def)
  have "dropWhile isspace (rev w @ rev t) = dropWhile isspace (rev t)"
  proof (rule dropWhile_append2)
    fix x assume "x \<in> set (rev w)"
    with assms(2) show "isspace x" by (simp add: list_all_iff)
  qed
  also have "\<dots> = rev t" using snoc y by simp
  finally show ?thesis by (simp add: rstrip_def)
qed

lemma comma_not_space: "\<not> isspace CHR '',''"
  by (simp add: isspace_def)

lemma spaces_no_comma: "list_all isspace w \<Longrightarrow> CHR '','' \<notin> set w"
  using comma_not_space by (auto simp: list_all_iff)

lemma re_split_comma_no_comma: "CHR '','' \<notin> set v \<Longrightarrow> re_split_comma v = [v]"
  by (subst re_split_comma.simps) simp

lemma re_split_comma_step:
  assumes "plain_tag t" "list_all isspace w1"
  shows "re_split_comma (t @ w1 @ CHR '','' # rest) = t # re_split_comma (lstrip rest)"
proof -
  have nc: "\<And>x. x \<in> set (t @ w1) \<Longrightarrow> x \<noteq> CHR '',''"
    using assms spaces_no_comma [of w1] by (auto simp: plain_tag_def)
  have "takeWhile (\<lambda>c. c \<noteq> CHR '','') ((t @ w1) @ CHR '','' # rest)
          = (t @ w1) @ takeWhile (\<lambda>c. c \<noteq> CHR '','') (CHR '','' # rest)"
    by (rule takeWhile_append2) (rule nc)
  then have tw: "takeWhile (\<lambda>c. c \<noteq> CHR '','') (t @ w1 @ CHR '','' # rest) = t @ w1"
    by simp
  have "dropWhile (\<lambda>c. c \<noteq> CHR '','') ((t @ w1) @ CHR '','' # rest)
          = dropWhile (\<lambda>c. c \<noteq> CHR '','') (CHR '','' # rest)"
    by (rule dropWhile_append2) (rule nc)
  then have dw: "dropWhile (\<lambda>c. c \<noteq> CHR '','') (t @ w1 @ CHR '','' # rest) = CHR '','' # rest"
    by simp
  have m: "CHR '','' \<in> set (t @ w1 @ CHR '','' # rest)" by simp
  have "re_split_comma (t @ w1 @ CHR '','' # rest)
          = rstrip (t @ w1) # re_split_comma (lstrip (drop 1 (CHR '','' # rest)))"
    by (subst re_split_comma.simps) (simp only: m tw dw if_True)
  then show ?thesis by (simp add: rstrip_plain_spaces [OF assms])
qed

lemma lstrip_spaces_plain:
  assumes "list_all isspace w"
  shows "lstrip (w @ CHR '','' # rest) = CHR '','' # rest"
proof -
  have "dropWhile isspace (w @ CHR '','' # rest) = dropWhile isspace (CHR '','' # rest)"
  proof (rule dropWhile_append2)
    fix x assume "x \<in> set w"
    with assms show "isspace x" by (simp add: list_all_iff)
  qed
  then show ?thesis by (simp add: lstrip_def comma_not_space)
qed

lemma lstrip_spaces_tag:
  assumes "list_all isspace w" "plain_tag t" "t \<noteq> []"
  shows "lstrip (w @ t @ rest) = t @ rest"
proof -
  from assms obtain c cs where t: "t = c # cs" by (cases t) auto
  with assms have c: "\<not> isspace c" by (simp add: plain_tag_def)
  have "dropWhile isspace (w @ t @ rest) = dropWhile isspace (t @ rest)"
  proof (rule dropWhile_append2)
    fix x assume "x \<in> set w"
    with assms(1) show "isspace x" by (simp add: list_all_iff)
  qed
  with t c show ?thesis by (simp add: lstrip_def)
qed

lemma lstrip_spaces: "list_all isspace w \<Longrightarrow> lstrip w = []"
  by (simp add: lstrip_def list_all_iff dropWhile_eq_Nil_conv)

lemma re_split_comma_lstrip:
  "list_all isspace w \<Longrightarrow> plain_tag t \<Longrightarrow> separators_ok r \<Longrightarrow>
     re_split_comma (lstrip (w @ comma_string t r)) = t # map (\<lambda>(w1, w2, t'). t') r"
proof (induction r arbitrary: w t)
  case Nil
  show ?case
  proof (cases "t = []")
    case True
    with Nil have "lstrip (w @ comma_string t []) = []"
      by (simp add: lstrip_spaces)
    with True show ?thesis by (simp add: re_split_comma_no_comma)
  next
    case False
    from lstrip_spaces_tag [OF Nil(1) Nil(2) False, of "[]"]
    have "lstrip (w @ comma_string t []) = t" by simp
    with Nil show ?thesis by (simp add: re_split_comma_no_comma plain_tag_def)
  qed
next
  case (Cons x r)
  obtain w1 w2 t' where x: "x = (w1, w2, t')" by (cases x) auto
  from Cons.prems x have ok: "list_all isspace w1" "list_all isspace w2" "plain_tag t'" "separators_ok r"
    by (simp_all add: separators_ok_def)
  have rest: "re_split_comma (lstrip (w2 @ comma_string t' r)) = t' # map (\<lambda>(w1, w2, t'). t') r"
    by (rule Cons.IH [OF ok(2) ok(3) ok(4)])
  have "re_split_comma (lstrip (w @ comma_string t (x # r)))
          = t # re_split_comma (lstrip (w2 @ comma_string t' r))"
  proof (cases "t = []")
    case True
    have "list_all isspace (w @ w1)" using Cons.prems(1) ok(1) by simp
    from lstrip_spaces_plain [OF this, of "w2 @ comma_string t' r"]
    have "lstrip (w @ comma_string t (x # r)) = CHR '','' # (w2 @ comma_string t' r)"
      using True x by simp
    moreover have "re_split_comma ([] @ [] @ CHR '','' # (w2 @ comma_string t' r))
                     = [] # re_split_comma (lstrip (w2 @ comma_string t' r))"
      by (rule re_split_comma_step) (simp_all add: plain_tag_def)
    ultimately show ?thesis using True by simp
  next
    case False
    from lstrip_spaces_tag [OF Cons.prems(1) Cons.prems(2) False, of "w1 @ CHR '','' # (w2 @ comma_string t' r)"]
    have "lstrip (w @ comma_string t (x # r)) = t @ w1 @ CHR '','' # (w2 @ comma_string t' r)"
      using x by simp
    then show ?thesis by (simp only: re_split_comma_step [OF Cons.prems(2) ok(1)])
  qed
  with rest x show ?case by simp
qed

lemma re_split_comma_string:
  assumes "plain_tag t" "separators_ok r"
  shows "re_split_comma (comma_string t r) = t # map (\<lambda>(w1, w2, t'). t') r"
proof (cases r)
  case Nil
  with assms show ?thesis by (simp add: re_split_comma_no_comma plain_tag_def)
next
  case (Cons x r')
  obtain w1 w2 t' where x: "x = (w1, w2, t')" by (cases x) auto
  from assms Cons x have ok: "list_all isspace w1" "list_all isspace w2" "plain_tag t'" "separators_ok r'"
    by (simp_all add: separators_ok_def)
  have "re_split_comma (comma_string t r) = t # re_split_comma (lstrip (w2 @ comma_string t' r'))"
    using re_split_comma_step [OF assms(1) ok(1)] Cons x by simp
  with re_split_comma_lstrip [OF ok(2) ok(3) ok(4)] Cons x show ?thesis by simp
qed

text \<open>
  C6. A tag list written as one string, its tags separated by commas with any
  whitespace around them, normalizes to the same sequence as the list itself: the
  string is split at each comma together with the whitespace around it, and the list is
  kept as it is. The tags are those that such a string can hold: without a comma and
  without whitespace at either end.
\<close>

theorem tags_string_and_list:
  "plain_tag t \<Longrightarrow> separators_ok r \<Longrightarrow>
     normalize_tags (YStr (comma_string t r)) = Inr (t # map (\<lambda>(w1, w2, t'). t') r) \<and>
     normalize_tags (YSeq (map YStr (t # map (\<lambda>(w1, w2, t'). t') r)))
       = Inr (t # map (\<lambda>(w1, w2, t'). t') r)"
  using validate_str_items_strings [of "t # map (\<lambda>(w1, w2, t'). t') r"]
  by (simp add: normalize_tags_def re_split_comma_string validate_str_items_strings)

theorem tags_string_and_list_witness:
  "plain_tag ''fun'' \<and> separators_ok [('' '', ''  '', ''test''), ([], [], ''a b'')] \<and>
   comma_string ''fun'' [('' '', ''  '', ''test''), ([], [], ''a b'')] = ''fun ,  test,a b'' \<and>
   normalize_tags (YStr ''fun ,  test,a b'') = Inr [''fun'', ''test'', ''a b''] \<and>
   normalize_tags (YSeq [YStr ''fun'', YStr ''test'', YStr ''a b'']) = Inr [''fun'', ''test'', ''a b'']"
proof -
  have p: "plain_tag ''fun''" by (simp add: plain_tag_def isspace_def)
  have s: "separators_ok [('' '', ''  '', ''test''), ([], [], ''a b'')]"
    by (simp add: separators_ok_def plain_tag_def isspace_def)
  have c: "comma_string ''fun'' [('' '', ''  '', ''test''), ([], [], ''a b'')] = ''fun ,  test,a b''"
    by simp
  from tags_string_and_list [OF p s] p s c show ?thesis by simp
qed

section \<open>The URL of an entry\<close>

lemma required_upd_other: "k \<noteq> k' \<Longrightarrow> required (kw(k' \<mapsto> v)) k f = required kw k f"
  by (simp add: required_def)

lemma required_upd_same: "required (kw(k \<mapsto> v)) k f = f v"
  by (simp add: required_def)

lemma new_Entry_url:
  assumes "new_Entry kw = Inr e"
  shows "new_Entry (kw(''url'' \<mapsto> YStr u)) = Inr (e\<lparr>url := u\<rparr>)"
proof -
  from assms obtain t eu en ts u0 where
    f: "required kw ''title'' validate_str = Inr t"
       "required kw ''emoji_url'' validate_str = Inr eu"
       "required kw ''emoji_name'' validate_str = Inr en"
       "required kw ''tags'' (validate_str_list \<circ> split_tags) = Inr ts"
       "required kw ''url'' validate_str = Inr u0"
    and e: "e = \<lparr>title = t, emoji_url = eu, emoji_name = en, tags = ts, url = u0\<rparr>"
    by (auto simp: new_Entry_def split: sum.splits)
  have "required (kw(''url'' \<mapsto> YStr u)) ''title'' validate_str = Inr t"
       "required (kw(''url'' \<mapsto> YStr u)) ''emoji_url'' validate_str = Inr eu"
       "required (kw(''url'' \<mapsto> YStr u)) ''emoji_name'' validate_str = Inr en"
       "required (kw(''url'' \<mapsto> YStr u)) ''tags'' (validate_str_list \<circ> split_tags) = Inr ts"
       "required (kw(''url'' \<mapsto> YStr u)) ''url'' validate_str = Inr u"
    using f by (simp_all add: required_upd_other required_upd_same)
  then show ?thesis by (simp add: new_Entry_def e)
qed

lemma download_html_no_id:
  "google_drive_file_id e = Inl err \<Longrightarrow> download_html e tgts w = (Inl err, w)"
  by (simp add: download_html_def)

text \<open>
  C3, as amended. Loading checks of \<open>url\<close> only that it is a string: an entry that
  loads still loads, with the new value, when its \<open>url\<close> is replaced by any string
  at all. A URL of which the document identity cannot be derived fails later, where
  the fetch task derives it: the task body raises that error before it sends a request
  or touches a file.
\<close>

theorem url_checked_at_fetch:
  "new_Entry kw = Inr e \<Longrightarrow>
     new_Entry (kw(''url'' \<mapsto> YStr u)) = Inr (e\<lparr>url := u\<rparr>) \<and>
     (\<forall>err. google_drive_file_id (e\<lparr>url := u\<rparr>) = Inl err \<longrightarrow>
            download_html (e\<lparr>url := u\<rparr>) tgts w = (Inl err, w))"
  by (simp add: new_Entry_url download_html_no_id)

lemma hello_kw:
  "new_Entry [''title'' \<mapsto> YStr ''Hello World'',
              ''emoji_url'' \<mapsto> YStr ''https://emoji.example.org/img/grin.png'',
              ''emoji_name'' \<mapsto> YStr ''grin'',
              ''tags'' \<mapsto> YSeq [YStr ''fun'', YStr ''test''],
              ''url'' \<mapsto> YStr ''https://docs.google.com/document/d/ABC123/edit'']
     = Inr hello_entry"
  by (simp add: new_Entry_def required_def hello_entry_def)

lemma not_a_url_id: "google_drive_file_id (hello_entry\<lparr>url := ''not a url''\<rparr>) = Inl AssertionError"
  by code_simp

theorem url_checked_at_fetch_witness:
  "new_Entry ([''title'' \<mapsto> YStr ''Hello World'',
               ''emoji_url'' \<mapsto> YStr ''https://emoji.example.org/img/grin.png'',
               ''emoji_name'' \<mapsto> YStr ''grin'',
               ''tags'' \<mapsto> YSeq [YStr ''fun'', YStr ''test''],
               ''url'' \<mapsto> YStr ''https://docs.google.com/document/d/ABC123/edit'']
              (''url'' \<mapsto> YStr ''not a url''))
     = Inr (hello_entry\<lparr>url := ''not a url''\<rparr>) \<and>
   google_drive_file_id (hello_entry\<lparr>url := ''not a url''\<rparr>) = Inl AssertionError \<and>
   download_html (hello_entry\<lparr>url := ''not a url''\<rparr>) [''build/hello-world.raw.html''] w0
     = (Inl AssertionError, w0)"
  using url_checked_at_fetch [OF hello_kw, of "''not a url''" "[''build/hello-world.raw.html'']" w0]
        not_a_url_id
  by blast

text \<open>
  The claim as it is written fails on a configuration whose only entry has the \<open>url\<close>
  \<open>not a url\<close>: the collection is constructed, and the identity of the document cannot
  be derived from the entry.
\<close>

theorem url_not_checked_at_load:
  "from_yaml bad_url_config
     = Inr \<lparr>book_title = ''Reading List'', entries = [hello_entry\<lparr>url := ''not a url''\<rparr>]\<rparr> \<and>
   google_drive_file_id (hello_entry\<lparr>url := ''not a url''\<rparr>) = Inl AssertionError"
  by code_simp

section \<open>The identifier of a collection\<close>








section \<open>The packaged document\<close>

lemma chapters_of_append: "chapters_of (xs @ ys) = chapters_of xs @ chapters_of ys"
  by (induction xs rule: chapters_of.induct) simp_all

lemma make_chapters_result:
  "make_chapters w i es its chs = Inr (its', chs') \<Longrightarrow>
     \<exists>new. chs' = chs @ new \<and> chapters_of its' = chapters_of its @ new \<and>
           map html_title new = map chapter_title es \<and>
           map (\<lambda>c. ctx_title (html_content c)) new = map title es \<and>
           map (\<lambda>c. ctx_url (html_content c)) new = map url es \<and>
           map html_file_name new
             = map (\<lambda>k. ''chapter_'' @ format_02 (i + k + 1) @ ''.xhtml'') [0..<length es]"
proof (induction es arbitrary: i its chs)
  case Nil
  then show ?case by simp
next
  case (Cons entry rest)
  from Cons.prems obtain et emoji_content rt raw where
    et: "emoji_target entry = Inr et" and
    ec: "read_file w et = Inr emoji_content" and
    rt: "raw_html_target entry = Inr rt" and
    raw: "read_file w rt = Inr raw"
    by (auto simp: Let_def split: sum.splits)
  define chap where
    "chap = \<lparr>html_title = chapter_title entry,
                html_file_name = ''chapter_'' @ format_02 (i + 1) @ ''.xhtml'',
                html_lang = ''en'',
                html_content = render_context entry (path_name et) raw\<rparr>"
  from Cons.prems et ec rt raw
  have r: "make_chapters w (i + 1) rest
             (its @ [EpubImage (path_name et) emoji_content, Chapter chap])
             (chs @ [chap]) = Inr (its', chs')"
    by (simp add: Let_def chap_def)
  from Cons.IH [OF r] obtain new where
    n: "chs' = (chs @ [chap]) @ new"
       "chapters_of its'
          = chapters_of (its @ [EpubImage (path_name et) emoji_content, Chapter chap]) @ new"
       "map html_title new = map chapter_title rest"
       "map (\<lambda>c. ctx_title (html_content c)) new = map title rest"
       "map (\<lambda>c. ctx_url (html_content c)) new = map url rest"
       "map html_file_name new
          = map (\<lambda>k. ''chapter_'' @ format_02 (i + 1 + k + 1) @ ''.xhtml'') [0..<length rest]"
    by blast
  have c: "html_title chap = chapter_title entry"
          "ctx_title (html_content chap) = title entry"
          "ctx_url (html_content chap) = url entry"
          "html_file_name chap = ''chapter_'' @ format_02 (i + 0 + 1) @ ''.xhtml''"
    by (simp_all add: chap_def render_context_def Let_def)
  have f: "map (\<lambda>k. ''chapter_'' @ format_02 (i + k + 1) @ ''.xhtml'') [0..<length (entry # rest)]
             = (''chapter_'' @ format_02 (i + 0 + 1) @ ''.xhtml'')
                 # map (\<lambda>k. ''chapter_'' @ format_02 (i + 1 + k + 1) @ ''.xhtml'') [0..<length rest]"
    by (simp add: map_upt_Suc del: upt_Suc)
  show ?case
  proof (intro exI conjI)
    show "chs' = chs @ (chap # new)" using n(1) by simp
    show "chapters_of its' = chapters_of its @ (chap # new)"
      using n(2) by (simp add: chapters_of_append)
    show "map html_title (chap # new) = map chapter_title (entry # rest)"
      using n(3) c(1) by simp
    show "map (\<lambda>c. ctx_title (html_content c)) (chap # new) = map title (entry # rest)"
      using n(4) c(2) by simp
    show "map (\<lambda>c. ctx_url (html_content c)) (chap # new) = map url (entry # rest)"
      using n(5) c(3) by simp
    show "map html_file_name (chap # new)
            = map (\<lambda>k. ''chapter_'' @ format_02 (i + k + 1) @ ''.xhtml'') [0..<length (entry # rest)]"
      unfolding f using n(6) c(4) by simp
  qed
qed

lemma make_chapters_total:
  "list_all (entry_ready w) es \<Longrightarrow> \<exists>r. make_chapters w i es its chs = Inr r"
proof (induction es arbitrary: i its chs)
  case Nil
  then show ?case by simp
next
  case (Cons entry rest)
  from Cons.prems have e: "entry_ready w entry" and r: "list_all (entry_ready w) rest"
    by simp_all
  from e obtain et rt fe fr where
    "emoji_target entry = Inr et" "raw_html_target entry = Inr rt"
    "files w (path_str et) = Some fe" "files w (path_str rt) = Some fr"
    by (auto simp: entry_ready_def split: sum.splits)
  then show ?case
    using Cons.IH [OF r] by (simp add: Let_def read_file_def)
qed

text \<open>
  C8. When the files that the packaging reads are all there, \<open>make_epub\<close> builds a
  book; and the book it builds has, among its items, exactly the chapters of its table
  of contents; these are one chapter for each entry, in the order of the entries (the
  chapter at each place carries the title and the URL of the entry at that place, and
  the file name with that place's number); and the spine is the cover page, the
  navigation page, and these chapters in this order.
\<close>

theorem make_epub_order:
  "(inputs_ready b w \<longrightarrow> (\<exists>eb. make_epub b w = Inr eb)) \<and>
   (make_epub b w = Inr eb \<longrightarrow>
      chapters_of (epub_items eb) = epub_toc eb \<and>
      length (epub_toc eb) = length (entries b) \<and>
      map html_title (epub_toc eb) = map chapter_title (entries b) \<and>
      map (\<lambda>c. ctx_title (html_content c)) (epub_toc eb) = map title (entries b) \<and>
      map (\<lambda>c. ctx_url (html_content c)) (epub_toc eb) = map url (entries b) \<and>
      map html_file_name (epub_toc eb)
        = map (\<lambda>k. ''chapter_'' @ format_02 (k + 1) @ ''.xhtml'') [0..<length (entries b)] \<and>
      epub_spine eb
        = SpineItem (EpubCoverHtml ''cover.png'') # SpineId ''nav''
            # map (\<lambda>c. SpineItem (Chapter c)) (epub_toc eb))"
proof (intro conjI impI)
  assume "inputs_ready b w"
  then obtain fc fs where
    f: "files w (path_str (cover_image_target b)) = Some fc"
       "files w (path_str (Path ''stylesheets/style.css'')) = Some fs"
    and r: "list_all (entry_ready w) (entries b)"
    by (auto simp: inputs_ready_def)
  from make_chapters_total [OF r]
  obtain its chs where
    "make_chapters w 0 (entries b) [EpubCover ''cover.png'' (data fc), EpubCoverHtml ''cover.png''] []
       = Inr (its, chs)"
    by fastforce
  with f show "\<exists>eb. make_epub b w = Inr eb"
    by (simp add: make_epub_def read_file_def Let_def)
next
  assume m: "make_epub b w = Inr eb"
  then obtain cover its chs stylesheet where
    mc: "make_chapters w 0 (entries b) [EpubCover ''cover.png'' cover, EpubCoverHtml ''cover.png''] []
           = Inr (its, chs)"
    and eb: "epub_items eb = its @ [EpubNcx, EpubNav,
                                   EpubItem ''style_nav'' ''style.css'' ''text/css'' stylesheet]"
            "epub_toc eb = chs"
            "epub_spine eb = SpineItem (EpubCoverHtml ''cover.png'') # SpineId ''nav''
                               # map (\<lambda>c. SpineItem (Chapter c)) chs"
    by (auto simp: make_epub_def Let_def split: sum.splits prod.splits)
  from make_chapters_result [OF mc] obtain new where
    n: "chs = [] @ new"
       "chapters_of its
          = chapters_of [EpubCover ''cover.png'' cover, EpubCoverHtml ''cover.png''] @ new"
       "map html_title new = map chapter_title (entries b)"
       "map (\<lambda>c. ctx_title (html_content c)) new = map title (entries b)"
       "map (\<lambda>c. ctx_url (html_content c)) new = map url (entries b)"
       "map html_file_name new
          = map (\<lambda>k. ''chapter_'' @ format_02 (0 + k + 1) @ ''.xhtml'') [0..<length (entries b)]"
    by blast
  from n(1) have cn: "chs = new" by simp
  show "chapters_of (epub_items eb) = epub_toc eb"
    using eb(1,2) n(2) cn by (simp add: chapters_of_append)
  show "length (epub_toc eb) = length (entries b)"
    using eb(2) cn n(3) by (metis length_map)
  show "map html_title (epub_toc eb) = map chapter_title (entries b)"
    using eb(2) cn n(3) by simp
  show "map (\<lambda>c. ctx_title (html_content c)) (epub_toc eb) = map title (entries b)"
    using eb(2) cn n(4) by simp
  show "map (\<lambda>c. ctx_url (html_content c)) (epub_toc eb) = map url (entries b)"
    using eb(2) cn n(5) by simp
  show "map html_file_name (epub_toc eb)
          = map (\<lambda>k. ''chapter_'' @ format_02 (k + 1) @ ''.xhtml'') [0..<length (entries b)]"
    using eb(2) cn n(6) by simp
  show "epub_spine eb
          = SpineItem (EpubCoverHtml ''cover.png'') # SpineId ''nav''
              # map (\<lambda>c. SpineItem (Chapter c)) (epub_toc eb)"
    using eb(2,3) by simp
qed

lemma reading_list_ready: "inputs_ready reading_list ready_world"
  by code_simp

lemma reading_list_titles:
  "map chapter_title (entries reading_list) = ['':grin: Hello World'', '':grin: Second Story'']"
  by (simp add: reading_list_def hello_entry_def other_entry_def chapter_title_def)

lemma reading_list_file_names:
  "map (\<lambda>k. ''chapter_'' @ format_02 (k + 1) @ ''.xhtml'') [0..<length (entries reading_list)]
     = [''chapter_01.xhtml'', ''chapter_02.xhtml'']"
  by code_simp

theorem make_epub_order_witness:
  "inputs_ready reading_list ready_world \<and>
   (\<exists>eb. make_epub reading_list ready_world = Inr eb \<and>
         chapters_of (epub_items eb) = epub_toc eb \<and>
         map html_title (epub_toc eb) = ['':grin: Hello World'', '':grin: Second Story''] \<and>
         map html_file_name (epub_toc eb) = [''chapter_01.xhtml'', ''chapter_02.xhtml''] \<and>
         epub_spine eb
           = SpineItem (EpubCoverHtml ''cover.png'') # SpineId ''nav''
               # map (\<lambda>c. SpineItem (Chapter c)) (epub_toc eb))"
proof -
  from make_epub_order [THEN conjunct1, rule_format, OF reading_list_ready]
  obtain eb where m: "make_epub reading_list ready_world = Inr eb" ..
  note p = make_epub_order [THEN conjunct2, rule_format, OF m]
  have p1: "chapters_of (epub_items eb) = epub_toc eb"
    using p by (rule conjunct1)
  have p3: "map html_title (epub_toc eb) = ['':grin: Hello World'', '':grin: Second Story'']"
    using p [THEN conjunct2, THEN conjunct2, THEN conjunct1] by (simp only: reading_list_titles)
  have p6: "map html_file_name (epub_toc eb) = [''chapter_01.xhtml'', ''chapter_02.xhtml'']"
    using p [THEN conjunct2, THEN conjunct2, THEN conjunct2, THEN conjunct2, THEN conjunct2,
             THEN conjunct1]
    by (simp only: reading_list_file_names)
  have p7: "epub_spine eb
              = SpineItem (EpubCoverHtml ''cover.png'') # SpineId ''nav''
                  # map (\<lambda>c. SpineItem (Chapter c)) (epub_toc eb)"
    using p [THEN conjunct2, THEN conjunct2, THEN conjunct2, THEN conjunct2, THEN conjunct2,
             THEN conjunct2] .
  show ?thesis
    by (intro conjI exI [of _ eb]) (rule reading_list_ready m p1 p3 p6 p7)+
qed

section \<open>The fetch of an article\<close>

text \<open>
  C9. Whatever the export endpoint answers, of whatever status, the body of the
  article fetch task sends one request, asks nothing of the answer, and writes its text
  as it is to the target; the text is then what the packaging reads, and the chapter
  is flagged as failed exactly when the marker is in it.
\<close>

theorem download_html_writes_response:
  "google_drive_file_id e = Inr file_id \<Longrightarrow>
   environ w ''GOOGLE_API_KEY'' = Some key \<Longrightarrow>
   server w \<lparr>req_url = ''https://www.googleapis.com/drive/v3/files/'' @ file_id @ ''/export'',
              req_params = [(''mimeType'', ''text/html''), (''key'', key)]\<rparr> = Inr r \<Longrightarrow>
   (case capacity w of None \<Rightarrow> True | Some k \<Rightarrow> length (resp_text r) \<le> k) \<Longrightarrow>
     (\<exists>w'. download_html e (t # ts) w = (Inr (), w') \<and>
           files w' t = Some \<lparr>data = resp_text r, mtime = clock w\<rparr> \<and>
           requests w'
             = requests w
                 @ [\<lparr>req_url = ''https://www.googleapis.com/drive/v3/files/'' @ file_id @ ''/export'',
                      req_params = [(''mimeType'', ''text/html''), (''key'', key)]\<rparr>]) \<and>
     raw_html (render_context e f (resp_text r)) = resp_text r \<and>
     raw_html_failed_to_export (render_context e f (resp_text r))
       = py_in ''cannotExportFile'' (resp_text r)"
  by (simp add: download_html_def httpx_get_def open_and_write_def open_w_def write_str_def
        render_context_def Let_def split: option.splits)

lemma hello_file_id: "google_drive_file_id hello_entry = Inr ''ABC123''"
  by code_simp

theorem download_html_writes_response_witness:
  "status_code \<lparr>status_code = 403, resp_text = ''{error: cannotExportFile}'', resp_content = []\<rparr> = 403 \<and>
   (\<exists>w'. download_html hello_entry [''build/hello-world.raw.html''] (w0\<lparr>server := failing_server\<rparr>)
            = (Inr (), w') \<and>
         files w' ''build/hello-world.raw.html''
           = Some \<lparr>data = ''{error: cannotExportFile}'', mtime = 2\<rparr> \<and>
         requests w'
           = [\<lparr>req_url = ''https://www.googleapis.com/drive/v3/files/ABC123/export'',
                req_params = [(''mimeType'', ''text/html''), (''key'', ''secret'')]\<rparr>]) \<and>
   raw_html_failed_to_export (render_context hello_entry ''grin.png'' ''{error: cannotExportFile}'')"
proof -
  have k: "environ (w0\<lparr>server := failing_server\<rparr>) ''GOOGLE_API_KEY'' = Some ''secret''"
    by (simp add: w0_def)
  have s: "server (w0\<lparr>server := failing_server\<rparr>)
             \<lparr>req_url = ''https://www.googleapis.com/drive/v3/files/'' @ ''ABC123'' @ ''/export'',
              req_params = [(''mimeType'', ''text/html''), (''key'', ''secret'')]\<rparr>
           = Inr \<lparr>status_code = 403, resp_text = ''{error: cannotExportFile}'', resp_content = []\<rparr>"
    by (simp add: failing_server_def)
  have c: "case capacity (w0\<lparr>server := failing_server\<rparr>) of
             None \<Rightarrow> True
           | Some k \<Rightarrow>
               length (resp_text \<lparr>status_code = 403, resp_text = ''{error: cannotExportFile}'',
                                  resp_content = []\<rparr>) \<le> k"
    by (simp add: w0_def)
  have m: "py_in ''cannotExportFile'' ''{error: cannotExportFile}''"
    by code_simp
  note p = download_html_writes_response [OF hello_file_id k s c,
             of "''build/hello-world.raw.html''" "[]" "''grin.png''"]
  from p [THEN conjunct1] obtain w' where
    d: "download_html hello_entry [''build/hello-world.raw.html''] (w0\<lparr>server := failing_server\<rparr>)
          = (Inr (), w')"
       "files w' ''build/hello-world.raw.html''
          = Some \<lparr>data = ''{error: cannotExportFile}'', mtime = 2\<rparr>"
       "requests w'
          = [\<lparr>req_url = ''https://www.googleapis.com/drive/v3/files/ABC123/export'',
               req_params = [(''mimeType'', ''text/html''), (''key'', ''secret'')]\<rparr>]"
    by (auto simp: w0_def)
  have f: "raw_html_failed_to_export (render_context hello_entry ''grin.png'' ''{error: cannotExportFile}'')"
    using p [THEN conjunct2, THEN conjunct2] m by simp
  show ?thesis
    by (intro conjI exI [of _ w']) (simp, (rule d f)+)
qed

section \<open>Failure of a task body\<close>








end
